theory Spec2Isabelle
  imports Main "HOL-Library.Word"
begin

section \<open>Data model of the OCSP message structures\<close>

text \<open>
  The Go structs of the package become records. A slice of structs is a list (Go's
  \<open>len\<close>, \<open>range\<close> and \<open>append\<close> do not tell a nil slice from an empty one). A
  \<open>[]byte\<close> held in a field or handed to an accessor is a \<open>byte_slice\<close>: \<open>None\<close> is
  Go's \<open>nil\<close>, \<open>Some bs\<close> a non-nil slice, so that "no nonce" and "an empty nonce" stay
  apart. Encoded messages, which the code reads only through \<open>len\<close>, are plain byte lists.
\<close>

type_synonym byte = "8 word"
type_synonym wire = "byte list"
type_synonym byte_slice = "byte list option"
type_synonym ObjectIdentifier = "int list"

text \<open>\<open>asn1.ObjectIdentifier.Equal\<close>: same length and the same arcs.\<close>

fun Equal :: "ObjectIdentifier \<Rightarrow> ObjectIdentifier \<Rightarrow> bool" where
  "Equal [] [] = True"
| "Equal (a # as) (b # bs) = (a = b \<and> Equal as bs)"
| "Equal _ _ = False"

definition OidOcspNonce :: ObjectIdentifier where
  "OidOcspNonce = [1, 3, 6, 1, 5, 5, 7, 48, 1, 2]"

definition OidOcspBasicResponse :: ObjectIdentifier where
  "OidOcspBasicResponse = [1, 3, 6, 1, 5, 5, 7, 48, 1, 1]"

subsection \<open>Types of the standard library that the structs embed\<close>

text \<open>
  \<open>time.Time\<close> is an instant (seconds and nanoseconds counted from January 1 of year 1,
  UTC) and a location. \<open>IsZero\<close> holds of that first instant; \<open>Equal\<close> compares
  instants and ignores the location. The zero value \<open>time.Time{}\<close> is that instant with
  no location.
\<close>

record Time =
  sec :: int
  nsec :: int
  loc :: nat

definition Time_zero :: Time where
  "Time_zero = \<lparr>sec = 0, nsec = 0, loc = 0\<rparr>"

definition IsZero :: "Time \<Rightarrow> bool" where
  "IsZero t = (sec t = 0 \<and> nsec t = 0)"

definition Time_Equal :: "Time \<Rightarrow> Time \<Rightarrow> bool" where
  "Time_Equal t u = (sec t = sec u \<and> nsec t = nsec u)"

record RawValue =
  Class :: int
  Tag :: int
  IsCompound :: bool
  Bytes :: byte_slice
  FullBytes :: byte_slice

definition RawValue_zero :: RawValue where
  "RawValue_zero = \<lparr>Class = 0, Tag = 0, IsCompound = False, Bytes = None, FullBytes = None\<rparr>"

record BitString =
  BitString_Bytes :: byte_slice
  BitLength :: int

record AlgorithmIdentifier =
  Algorithm :: ObjectIdentifier
  Parameters :: RawValue

definition AlgorithmIdentifier_zero :: AlgorithmIdentifier where
  "AlgorithmIdentifier_zero = \<lparr>Algorithm = [], Parameters = RawValue_zero\<rparr>"

record Extension =
  Id_ext :: ObjectIdentifier
  Critical :: bool
  Value :: byte_slice

record AttributeTypeAndValue =
  Type_atv :: ObjectIdentifier
  Value_atv :: byte_slice

type_synonym RDNSequence = "AttributeTypeAndValue list list"

subsection \<open>The structs of the package\<close>

record certID =
  HashAlgorithm :: AlgorithmIdentifier
  NameHash :: byte_slice
  IssuerKeyHash :: byte_slice
  SerialNumber :: "int option"

definition certID_zero :: certID where
  "certID_zero = \<lparr>HashAlgorithm = AlgorithmIdentifier_zero, NameHash = None,
     IssuerKeyHash = None, SerialNumber = None\<rparr>"

record request =
  ReqCert :: certID
  SingleRequestExtensions :: "Extension list"

record tbsRequest =
  Version_req :: int
  RequestorName :: RDNSequence
  RequestList :: "request list"
  ExtensionList :: "Extension list"

record signature =
  SignatureAlgorithm_req :: AlgorithmIdentifier
  Signature_sig :: BitString
  Certs_req :: "RawValue list list"

record OcspRequest =
  TBSRequest :: tbsRequest
  Signature_req :: signature

record responseBytes =
  ResponseType :: ObjectIdentifier
  Response :: byte_slice

record OcspResponse =
  ResponseStatus :: int
  ResponseBytes :: responseBytes

record RevokedInfo =
  RevocationTime :: Time
  RevocationReason :: int

definition RevokedInfo_zero :: RevokedInfo where
  "RevokedInfo_zero = \<lparr>RevocationTime = Time_zero, RevocationReason = 0\<rparr>"

record singleResponse =
  CertID :: certID
  Good :: bool
  Revoked :: RevokedInfo
  Unknown :: bool
  ThisUpdate :: Time
  NextUpdate :: Time
  SingleExtensions :: "Extension list"

text \<open>The value of \<open>var s singleResponse\<close>: every field at its zero value.\<close>

definition singleResponse_zero :: singleResponse where
  "singleResponse_zero = \<lparr>CertID = certID_zero, Good = False, Revoked = RevokedInfo_zero,
     Unknown = False, ThisUpdate = Time_zero, NextUpdate = Time_zero, SingleExtensions = []\<rparr>"

record responseData =
  Version :: int
  ResponderID :: RawValue
  ProducedAt :: Time
  Responses :: "singleResponse list"
  ResponseExtensions :: "Extension list"

record BasicResponse =
  TBSResponseData :: responseData
  SignatureAlgorithm :: AlgorithmIdentifier
  Signature :: BitString
  Certs :: "RawValue list"

subsection \<open>Errors\<close>

text \<open>
  \<open>encoding/asn1\<close> reports a \<open>StructuralError\<close> or a \<open>SyntaxError\<close>; the package passes
  them on unchanged and adds its own errors with \<open>errors.New\<close>. Indexing a slice out of
  range panics.
\<close>

datatype asn1_error = StructuralError string | SyntaxError string

datatype error = Asn1 asn1_error | ErrorsNew string | PanicIndexOutOfRange

section \<open>Revocation status\<close>

definition IsEmpty :: "RevokedInfo \<Rightarrow> bool" where
  "IsEmpty ri =
     (if IsZero (RevocationTime ri) \<or> Time_Equal (RevocationTime ri) Time_zero then True
      else False)"

text \<open>
  The body of the loop of \<open>MarshalBasicResponse\<close> on the entry \<open>sr\<close> it has copied out of
  the slice: \<open>Some s\<close> is the value a branch stores back at the entry's index, \<open>None\<close>
  is the path with no store.
\<close>

definition MarshalBasicResponse_branch :: "singleResponse \<Rightarrow> singleResponse option" where
  "MarshalBasicResponse_branch sr =
     (if Good sr = True \<and> Unknown sr = True then
        Some (singleResponse_zero\<lparr>CertID := CertID sr, ThisUpdate := ThisUpdate sr,
          NextUpdate := NextUpdate sr, SingleExtensions := SingleExtensions sr, Good := True\<rparr>)
      else if \<not> IsEmpty (Revoked sr) \<and> Unknown sr = True then
        Some (singleResponse_zero\<lparr>CertID := CertID sr, ThisUpdate := ThisUpdate sr,
          NextUpdate := NextUpdate sr, SingleExtensions := SingleExtensions sr,
          Revoked := Revoked sr\<rparr>)
      else if Good sr = False \<and> IsEmpty (Revoked sr) then
        Some (singleResponse_zero\<lparr>CertID := CertID sr, ThisUpdate := ThisUpdate sr,
          NextUpdate := NextUpdate sr, SingleExtensions := SingleExtensions sr,
          Unknown := True\<rparr>)
      else None)"

text \<open>What the entry is after its iteration: the stored value, or the entry as it was.\<close>

definition normalize_status :: "singleResponse \<Rightarrow> singleResponse" where
  "normalize_status sr = (case MarshalBasicResponse_branch sr of Some s \<Rightarrow> s | None \<Rightarrow> sr)"

text \<open>
  One iteration \<open>i\<close> of \<open>for i, sr := range Responses\<close>, and the whole loop over the
  indices \<open>0 .. len - 1\<close> of the slice, which the stores update in place.
\<close>

definition MarshalBasicResponse_iter :: "nat \<Rightarrow> singleResponse list \<Rightarrow> singleResponse list" where
  "MarshalBasicResponse_iter i rs =
     (case MarshalBasicResponse_branch (rs ! i) of Some s \<Rightarrow> rs[i := s] | None \<Rightarrow> rs)"

definition MarshalBasicResponse_loop :: "singleResponse list \<Rightarrow> singleResponse list" where
  "MarshalBasicResponse_loop rs = fold MarshalBasicResponse_iter [0..<length rs] rs"

text \<open>The response as the loop leaves it, before it is handed to \<open>asn1.Marshal\<close>.\<close>

definition MarshalBasicResponse_normalized :: "BasicResponse \<Rightarrow> BasicResponse" where
  "MarshalBasicResponse_normalized basicResponse =
     basicResponse\<lparr>TBSResponseData := (TBSResponseData basicResponse)
       \<lparr>Responses := MarshalBasicResponse_loop (Responses (TBSResponseData basicResponse))\<rparr>\<rparr>"

section \<open>Nonce and status accessors\<close>

definition in_range :: "int \<Rightarrow> 'a list \<Rightarrow> bool" where
  "in_range index xs = (0 \<le> index \<and> index < int (length xs))"

definition nonceExt :: "byte_slice \<Rightarrow> Extension" where
  "nonceExt nonce = \<lparr>Id_ext = OidOcspNonce, Critical = False, Value = nonce\<rparr>"

text \<open>
  The loop of \<open>SetNonce\<close>, \<open>for _, extension := range extList\<close>: \<open>extension\<close> is a copy
  of the element, so the assignment to \<open>extension.Value\<close> changes the copy and the slice
  stays as it is; what the loop leaves behind is the flag \<open>done\<close>.
\<close>

fun SetNonce_range :: "Extension list \<Rightarrow> byte_slice \<Rightarrow> bool \<Rightarrow> bool" where
  "SetNonce_range [] nonce done = done"
| "SetNonce_range (extension # rest) nonce done =
     (if Equal (Id_ext extension) OidOcspNonce then
        (let extension' = extension\<lparr>Value := nonce\<rparr> in SetNonce_range rest nonce True)
      else SetNonce_range rest nonce done)"

definition SetNonce_extList :: "Extension list \<Rightarrow> byte_slice \<Rightarrow> Extension list" where
  "SetNonce_extList extList nonce =
     (if length extList = 0 then extList @ [nonceExt nonce]
      else if \<not> SetNonce_range extList nonce False then extList @ [nonceExt nonce]
      else extList)"

definition set_Responses :: "BasicResponse \<Rightarrow> singleResponse list \<Rightarrow> BasicResponse" where
  "set_Responses basicResponse rs =
     basicResponse\<lparr>TBSResponseData := (TBSResponseData basicResponse)\<lparr>Responses := rs\<rparr>\<rparr>"

definition SetNonce :: "BasicResponse \<Rightarrow> int \<Rightarrow> byte_slice \<Rightarrow> error + BasicResponse" where
  "SetNonce basicResponse index nonce =
     (let rs = Responses (TBSResponseData basicResponse) in
      if \<not> in_range index rs then Inl PanicIndexOutOfRange
      else
        let extList = SingleExtensions (rs ! nat index);
            extList' = SetNonce_extList extList nonce
        in Inr (set_Responses basicResponse
                  (rs[nat index := (rs ! nat index)\<lparr>SingleExtensions := extList'\<rparr>])))"

fun GetNonce_range :: "Extension list \<Rightarrow> byte_slice" where
  "GetNonce_range [] = None"
| "GetNonce_range (extension # rest) =
     (if Equal (Id_ext extension) OidOcspNonce then Value extension else GetNonce_range rest)"

definition GetNonce :: "BasicResponse \<Rightarrow> int \<Rightarrow> error + byte_slice" where
  "GetNonce basicResponse index =
     (let rs = Responses (TBSResponseData basicResponse) in
      if \<not> in_range index rs then Inl PanicIndexOutOfRange
      else
        let extList = SingleExtensions (rs ! nat index) in
        if length extList = 0 then Inr None else Inr (GetNonce_range extList))"

definition ClearStatus :: "BasicResponse \<Rightarrow> int \<Rightarrow> error + BasicResponse" where
  "ClearStatus basicResponse index =
     (let rs = Responses (TBSResponseData basicResponse) in
      if \<not> in_range index rs then Inl PanicIndexOutOfRange
      else
        let rs1 = rs[nat index := (rs ! nat index)\<lparr>Good := False\<rparr>];
            rs2 = rs1[nat index := (rs1 ! nat index)\<lparr>Unknown := False\<rparr>];
            rs3 = rs2[nat index := (rs2 ! nat index)\<lparr>Revoked := RevokedInfo_zero\<rparr>]
        in Inr (set_Responses basicResponse rs3))"

text \<open>
  \<open>(*OcspRequest).Nonce\<close> has a pointer receiver and no assignment through it: the
  request comes back as it went in, beside the result.
\<close>

fun Nonce_range :: "Extension list \<Rightarrow> byte_slice" where
  "Nonce_range [] = None"
| "Nonce_range (extension # rest) =
     (if Equal (Id_ext extension) OidOcspNonce then Value extension else Nonce_range rest)"

definition Nonce :: "OcspRequest \<Rightarrow> OcspRequest \<times> byte_slice" where
  "Nonce r = (r, Nonce_range (ExtensionList (TBSRequest r)))"

section \<open>Encoding and decoding\<close>

text \<open>
  \<open>asn1.Marshal\<close> and \<open>asn1.Unmarshal\<close> belong to Go's standard library; the functions
  of the package take them here as parameters, one per Go type they are used at.
  \<open>asn1.Unmarshal\<close> gives the decoded value and the bytes it did not consume, or an error.
\<close>

type_synonym 'a asn1_Marshal = "'a \<Rightarrow> asn1_error + wire"
type_synonym 'a asn1_Unmarshal = "wire \<Rightarrow> asn1_error + 'a \<times> wire"

definition UnmarshalRequest :: "OcspRequest asn1_Unmarshal \<Rightarrow> wire \<Rightarrow> error + OcspRequest" where
  "UnmarshalRequest asn1_Unmarshal request =
     (case asn1_Unmarshal request of
        Inl err \<Rightarrow> Inl (Asn1 err)
      | Inr (req, rest) \<Rightarrow>
          if length rest > 0 then Inl (ErrorsNew ''trailing data in OCSP request'')
          else Inr req)"


definition UnmarshalResponse :: "OcspResponse asn1_Unmarshal \<Rightarrow> wire \<Rightarrow> error + OcspResponse" where
  "UnmarshalResponse asn1_Unmarshal response =
     (case asn1_Unmarshal response of
        Inl err \<Rightarrow> Inl (Asn1 err)
      | Inr (ocspResponse, rest) \<Rightarrow>
          if length rest > 0 then Inl (ErrorsNew ''trailing data in OCSP response'')
          else Inr ocspResponse)"


definition UnmarshalBasicResponse ::
    "BasicResponse asn1_Unmarshal \<Rightarrow> wire \<Rightarrow> error + BasicResponse" where
  "UnmarshalBasicResponse asn1_Unmarshal basicResponse =
     (case asn1_Unmarshal basicResponse of
        Inl err \<Rightarrow> Inl (Asn1 err)
      | Inr (basic, rest) \<Rightarrow>
          if length rest > 0 then Inl (ErrorsNew ''trailing data in OCSP basic response'')
          else Inr basic)"

text \<open>
  \<open>MarshalBasicResponse\<close> works through a pointer: its result is the response as the
  loop has left it, beside the bytes or the error of \<open>asn1.Marshal\<close> on that response.
\<close>

definition MarshalBasicResponse ::
    "BasicResponse asn1_Marshal \<Rightarrow> BasicResponse \<Rightarrow> BasicResponse \<times> (error + wire)" where
  "MarshalBasicResponse asn1_Marshal basicResponse =
     (let basicResponse' = MarshalBasicResponse_normalized basicResponse in
      (basicResponse',
       case asn1_Marshal basicResponse' of Inl err \<Rightarrow> Inl (Asn1 err) | Inr b \<Rightarrow> Inr b))"

text \<open>
  The first loop of \<open>MarshalResponseFromBasic\<close>, \<open>for _, sr := range Responses\<close>, sets
  \<open>Unknown\<close> in the copy \<open>sr\<close> of the entry; the slice \<open>rs\<close> is not written.
\<close>

fun MarshalResponseFromBasic_range ::
    "singleResponse list \<Rightarrow> singleResponse list \<Rightarrow> singleResponse list" where
  "MarshalResponseFromBasic_range [] rs = rs"
| "MarshalResponseFromBasic_range (sr # rest) rs =
     (let sr' = (if Good sr = False \<and> IsEmpty (Revoked sr) then sr\<lparr>Unknown := True\<rparr> else sr)
      in MarshalResponseFromBasic_range rest rs)"

definition MarshalResponseFromBasic ::
    "BasicResponse asn1_Marshal \<Rightarrow> OcspResponse asn1_Marshal \<Rightarrow> BasicResponse
      \<Rightarrow> BasicResponse \<times> (error + wire)" where
  "MarshalResponseFromBasic marshalBasic marshalResponse basicResponse =
     (let rs = Responses (TBSResponseData basicResponse);
          basicResponse0 = set_Responses basicResponse (MarshalResponseFromBasic_range rs rs);
          (basicResponse', res) = MarshalBasicResponse marshalBasic basicResponse0
      in case res of
           Inl err \<Rightarrow> (basicResponse', Inl err)
         | Inr b \<Rightarrow>
             (let response = \<lparr>ResponseStatus = 0,
                    ResponseBytes = \<lparr>ResponseType = OidOcspBasicResponse, Response = Some b\<rparr>\<rparr>
              in (basicResponse',
                  case marshalResponse response of Inl err \<Rightarrow> Inl (Asn1 err) | Inr r \<Rightarrow> Inr r)))"




section \<open>Sample values\<close>

definition sample_time :: Time where
  "sample_time = \<lparr>sec = 63900000000, nsec = 0, loc = 0\<rparr>"

definition sample_certID :: certID where
  "sample_certID = \<lparr>HashAlgorithm = \<lparr>Algorithm = [1, 3, 14, 3, 2, 26], Parameters = RawValue_zero\<rparr>,
     NameHash = Some [1, 2], IssuerKeyHash = Some [3, 4], SerialNumber = Some 4660\<rparr>"

definition sample_ext :: Extension where
  "sample_ext = \<lparr>Id_ext = [2, 5, 29, 21], Critical = False, Value = Some [10, 1, 1]\<rparr>"

text \<open>An entry with the three status slots \<open>good\<close>, \<open>revoked\<close> and \<open>unknown\<close> as given.\<close>

definition sample_entry :: "bool \<Rightarrow> RevokedInfo \<Rightarrow> bool \<Rightarrow> singleResponse" where
  "sample_entry g r u = \<lparr>CertID = sample_certID, Good = g, Revoked = r, Unknown = u,
     ThisUpdate = sample_time, NextUpdate = Time_zero, SingleExtensions = [sample_ext]\<rparr>"

definition sample_revoked :: RevokedInfo where
  "sample_revoked = \<lparr>RevocationTime = sample_time, RevocationReason = 1\<rparr>"

text \<open>
  A responder identified by key hash, \<open>[2] EXPLICIT OCTET STRING\<close>, held as the raw value
  that decoding fills in: class, tag, content bytes and the full encoding.
\<close>

definition sample_responderID :: RawValue where
  "sample_responderID = \<lparr>Class = 2, Tag = 2, IsCompound = True,
     Bytes = Some [0x04, 0x02, 0xAA, 0xBB],
     FullBytes = Some [0xA2, 0x04, 0x04, 0x02, 0xAA, 0xBB]\<rparr>"

definition sample_basic :: "singleResponse list \<Rightarrow> BasicResponse" where
  "sample_basic rs = \<lparr>TBSResponseData = \<lparr>Version = 0, ResponderID = sample_responderID,
       ProducedAt = sample_time, Responses = rs, ResponseExtensions = []\<rparr>,
     SignatureAlgorithm = \<lparr>Algorithm = [1, 2, 840, 113549, 1, 1, 11],
       Parameters = RawValue_zero\<rparr>,
     Signature = \<lparr>BitString_Bytes = Some [0xAB, 0xCD], BitLength = 16\<rparr>, Certs = []\<rparr>"

definition sample_request :: "Extension list \<Rightarrow> OcspRequest" where
  "sample_request exts = \<lparr>TBSRequest = \<lparr>Version_req = 0, RequestorName = [],
       RequestList = [\<lparr>ReqCert = sample_certID, SingleRequestExtensions = []\<rparr>],
       ExtensionList = exts\<rparr>,
     Signature_req = \<lparr>SignatureAlgorithm_req = AlgorithmIdentifier_zero,
       Signature_sig = \<lparr>BitString_Bytes = None, BitLength = 0\<rparr>, Certs_req = []\<rparr>\<rparr>"

definition sample_response :: OcspResponse where
  "sample_response = \<lparr>ResponseStatus = 1,
     ResponseBytes = \<lparr>ResponseType = [], Response = None\<rparr>\<rparr>"

text \<open>
  A stand-in for the two library functions, used where a theorem about every codec is
  applied to one: \<open>frame_Marshal\<close> gives an empty \<open>SEQUENCE\<close>, and \<open>frame_Unmarshal v\<close>
  reads one tag byte and one length byte, skips that many content bytes, and gives \<open>v\<close>
  with the bytes after them.
\<close>

definition frame_Marshal :: "'a asn1_Marshal" where
  "frame_Marshal v = Inr [0x30, 0x00]"

fun frame_Unmarshal :: "'a \<Rightarrow> 'a asn1_Unmarshal" where
  "frame_Unmarshal v (t # l # body) =
     (if unat l \<le> length body then Inr (v, drop (unat l) body)
      else Inl (SyntaxError ''data truncated''))"
| "frame_Unmarshal v _ = Inl (SyntaxError ''data truncated'')"



section \<open>Auxiliary facts\<close>

lemma Equal_iff: "Equal a b \<longleftrightarrow> a = b"
  by (induction a b rule: Equal.induct) auto

lemma IsEmpty_iff: "IsEmpty ri \<longleftrightarrow> sec (RevocationTime ri) = 0 \<and> nsec (RevocationTime ri) = 0"
  by (auto simp: IsEmpty_def IsZero_def Time_Equal_def Time_zero_def)

lemma IsEmpty_zero: "IsEmpty RevokedInfo_zero"
  by (simp add: IsEmpty_iff RevokedInfo_zero_def Time_zero_def)

lemma MarshalBasicResponse_iter_eq:
  "MarshalBasicResponse_iter i rs = rs[i := normalize_status (rs ! i)]"
  by (simp add: MarshalBasicResponse_iter_def normalize_status_def split: option.split)

lemma MarshalBasicResponse_loop_prefix:
  "k \<le> length rs \<Longrightarrow>
     fold MarshalBasicResponse_iter [0..<k] rs = map normalize_status (take k rs) @ drop k rs"
proof (induction k)
  case 0
  show ?case by simp
next
  case (Suc k)
  then have k: "k < length rs" by simp
  have "fold MarshalBasicResponse_iter [0..<Suc k] rs =
      MarshalBasicResponse_iter k (map normalize_status (take k rs) @ drop k rs)"
    using Suc by simp
  also have "\<dots> = (map normalize_status (take k rs) @ drop k rs)[k := normalize_status (rs ! k)]"
    using k by (simp add: MarshalBasicResponse_iter_eq nth_append)
  also have "\<dots> = map normalize_status (take k rs) @ (drop k rs)[0 := normalize_status (rs ! k)]"
    using k by (simp add: list_update_append)
  also have "drop k rs = rs ! k # drop (Suc k) rs"
    using k by (simp add: Cons_nth_drop_Suc)
  also have "map normalize_status (take k rs) @ (rs ! k # drop (Suc k) rs)[0 := normalize_status (rs ! k)] =
      map normalize_status (take (Suc k) rs) @ drop (Suc k) rs"
    using k by (simp add: take_Suc_conv_app_nth)
  finally show ?case .
qed

lemma MarshalBasicResponse_loop_map: "MarshalBasicResponse_loop rs = map normalize_status rs"
  by (simp add: MarshalBasicResponse_loop_def MarshalBasicResponse_loop_prefix)

lemma MarshalResponseFromBasic_range_id: "MarshalResponseFromBasic_range xs rs = rs"
  by (induction xs) simp_all

lemma normalize_status_twice: "normalize_status (normalize_status sr) = normalize_status sr"
  by (simp add: normalize_status_def MarshalBasicResponse_branch_def IsEmpty_iff
      singleResponse_zero_def RevokedInfo_zero_def Time_zero_def)

lemma in_range_nat: "in_range index xs \<Longrightarrow> nat index < length xs"
  by (auto simp: in_range_def)

lemma MarshalBasicResponse_fst:
  "fst (MarshalBasicResponse m b) = MarshalBasicResponse_normalized b"
  by (simp add: MarshalBasicResponse_def Let_def)

lemma MarshalBasicResponse_snd:
  "snd (MarshalBasicResponse m b) =
     (case m (MarshalBasicResponse_normalized b) of Inl err \<Rightarrow> Inl (Asn1 err) | Inr w \<Rightarrow> Inr w)"
  by (simp add: MarshalBasicResponse_def Let_def)

lemma Responses_normalized:
  "Responses (TBSResponseData (MarshalBasicResponse_normalized b)) =
     map normalize_status (Responses (TBSResponseData b))"
  by (simp add: MarshalBasicResponse_normalized_def MarshalBasicResponse_loop_map)

lemma normalized_twice:
  "MarshalBasicResponse_normalized (MarshalBasicResponse_normalized b) =
     MarshalBasicResponse_normalized b"
  by (simp add: MarshalBasicResponse_normalized_def MarshalBasicResponse_loop_map
      normalize_status_twice)

section \<open>Status normalization on the encode path\<close>

lemma normalize_status_first:
  "Good sr \<Longrightarrow> Unknown sr \<Longrightarrow>
     normalize_status sr = singleResponse_zero\<lparr>CertID := CertID sr, ThisUpdate := ThisUpdate sr,
        NextUpdate := NextUpdate sr, SingleExtensions := SingleExtensions sr, Good := True\<rparr>"
  by (simp add: normalize_status_def MarshalBasicResponse_branch_def)

lemma normalize_status_second:
  "\<not> Good sr \<Longrightarrow> \<not> IsEmpty (Revoked sr) \<Longrightarrow> Unknown sr \<Longrightarrow>
     normalize_status sr = singleResponse_zero\<lparr>CertID := CertID sr, ThisUpdate := ThisUpdate sr,
        NextUpdate := NextUpdate sr, SingleExtensions := SingleExtensions sr,
        Revoked := Revoked sr\<rparr>"
  by (simp add: normalize_status_def MarshalBasicResponse_branch_def)

lemma normalize_status_third:
  "\<not> Good sr \<Longrightarrow> IsEmpty (Revoked sr) \<Longrightarrow>
     normalize_status sr = singleResponse_zero\<lparr>CertID := CertID sr, ThisUpdate := ThisUpdate sr,
        NextUpdate := NextUpdate sr, SingleExtensions := SingleExtensions sr,
        Unknown := True\<rparr>"
  by (simp add: normalize_status_def MarshalBasicResponse_branch_def)

lemma normalize_status_fourth:
  "\<not> (Good sr \<and> Unknown sr) \<Longrightarrow> \<not> (\<not> IsEmpty (Revoked sr) \<and> Unknown sr) \<Longrightarrow>
     \<not> (\<not> Good sr \<and> IsEmpty (Revoked sr)) \<Longrightarrow> normalize_status sr = sr"
  by (auto simp: normalize_status_def MarshalBasicResponse_branch_def)

text \<open>
  C2. Before a BasicResponse is encoded, each entry \<open>sr\<close> of its Responses is replaced by
  \<open>normalize_status sr\<close>, which is decided in this order: with good and unknown both
  set, the result is good and not unknown, with certID, thisUpdate, nextUpdate and the
  extensions of \<open>sr\<close>; else with a non-empty revoked-info and unknown set, the result
  keeps the revoked-info and is not unknown; else with neither good nor a non-empty
  revoked-info, the result is unknown, not good, and has an empty revoked-info, whether
  or not unknown was set; in every other case the entry is as it was.
\<close>

theorem normalize_status_cases:
  "fst (MarshalBasicResponse m b) = MarshalBasicResponse_normalized b
   \<and> Responses (TBSResponseData (MarshalBasicResponse_normalized b)) =
       map normalize_status (Responses (TBSResponseData b))
   \<and> (Good sr \<and> Unknown sr \<longrightarrow>
        Good (normalize_status sr) \<and> \<not> Unknown (normalize_status sr)
        \<and> CertID (normalize_status sr) = CertID sr
        \<and> ThisUpdate (normalize_status sr) = ThisUpdate sr
        \<and> NextUpdate (normalize_status sr) = NextUpdate sr
        \<and> SingleExtensions (normalize_status sr) = SingleExtensions sr)
   \<and> (\<not> (Good sr \<and> Unknown sr) \<and> \<not> IsEmpty (Revoked sr) \<and> Unknown sr \<longrightarrow>
        Revoked (normalize_status sr) = Revoked sr \<and> \<not> Unknown (normalize_status sr)
        \<and> \<not> Good (normalize_status sr)
        \<and> CertID (normalize_status sr) = CertID sr
        \<and> ThisUpdate (normalize_status sr) = ThisUpdate sr
        \<and> NextUpdate (normalize_status sr) = NextUpdate sr
        \<and> SingleExtensions (normalize_status sr) = SingleExtensions sr)
   \<and> (\<not> (Good sr \<and> Unknown sr) \<and> \<not> (\<not> IsEmpty (Revoked sr) \<and> Unknown sr)
        \<and> \<not> Good sr \<and> IsEmpty (Revoked sr) \<longrightarrow>
        Unknown (normalize_status sr) \<and> \<not> Good (normalize_status sr)
        \<and> IsEmpty (Revoked (normalize_status sr))
        \<and> CertID (normalize_status sr) = CertID sr
        \<and> ThisUpdate (normalize_status sr) = ThisUpdate sr
        \<and> NextUpdate (normalize_status sr) = NextUpdate sr
        \<and> SingleExtensions (normalize_status sr) = SingleExtensions sr)
   \<and> (\<not> (Good sr \<and> Unknown sr) \<and> \<not> (\<not> IsEmpty (Revoked sr) \<and> Unknown sr)
        \<and> \<not> (\<not> Good sr \<and> IsEmpty (Revoked sr)) \<longrightarrow>
        normalize_status sr = sr)"
proof (intro conjI)
  show "fst (MarshalBasicResponse m b) = MarshalBasicResponse_normalized b"
    by (rule MarshalBasicResponse_fst)
  show "Responses (TBSResponseData (MarshalBasicResponse_normalized b)) =
       map normalize_status (Responses (TBSResponseData b))"
    by (rule Responses_normalized)
  show "Good sr \<and> Unknown sr \<longrightarrow>
        Good (normalize_status sr) \<and> \<not> Unknown (normalize_status sr)
        \<and> CertID (normalize_status sr) = CertID sr
        \<and> ThisUpdate (normalize_status sr) = ThisUpdate sr
        \<and> NextUpdate (normalize_status sr) = NextUpdate sr
        \<and> SingleExtensions (normalize_status sr) = SingleExtensions sr"
    by (simp add: normalize_status_first singleResponse_zero_def)
  show "\<not> (Good sr \<and> Unknown sr) \<and> \<not> IsEmpty (Revoked sr) \<and> Unknown sr \<longrightarrow>
        Revoked (normalize_status sr) = Revoked sr \<and> \<not> Unknown (normalize_status sr)
        \<and> \<not> Good (normalize_status sr)
        \<and> CertID (normalize_status sr) = CertID sr
        \<and> ThisUpdate (normalize_status sr) = ThisUpdate sr
        \<and> NextUpdate (normalize_status sr) = NextUpdate sr
        \<and> SingleExtensions (normalize_status sr) = SingleExtensions sr"
    by (auto simp: normalize_status_second singleResponse_zero_def)
  show "\<not> (Good sr \<and> Unknown sr) \<and> \<not> (\<not> IsEmpty (Revoked sr) \<and> Unknown sr)
        \<and> \<not> Good sr \<and> IsEmpty (Revoked sr) \<longrightarrow>
        Unknown (normalize_status sr) \<and> \<not> Good (normalize_status sr)
        \<and> IsEmpty (Revoked (normalize_status sr))
        \<and> CertID (normalize_status sr) = CertID sr
        \<and> ThisUpdate (normalize_status sr) = ThisUpdate sr
        \<and> NextUpdate (normalize_status sr) = NextUpdate sr
        \<and> SingleExtensions (normalize_status sr) = SingleExtensions sr"
    by (auto simp: normalize_status_third singleResponse_zero_def IsEmpty_zero)
  show "\<not> (Good sr \<and> Unknown sr) \<and> \<not> (\<not> IsEmpty (Revoked sr) \<and> Unknown sr)
        \<and> \<not> (\<not> Good sr \<and> IsEmpty (Revoked sr)) \<longrightarrow>
        normalize_status sr = sr"
    using normalize_status_fourth [of sr] by blast
qed

theorem normalize_status_cases_witness:
  "normalize_status (sample_entry True RevokedInfo_zero True) =
     sample_entry True RevokedInfo_zero False
   \<and> normalize_status (sample_entry False sample_revoked True) =
     sample_entry False sample_revoked False
   \<and> normalize_status (sample_entry False RevokedInfo_zero False) =
     sample_entry False RevokedInfo_zero True
   \<and> normalize_status (sample_entry True RevokedInfo_zero False) =
     sample_entry True RevokedInfo_zero False"
proof -
  have e: "\<not> IsEmpty sample_revoked" "IsEmpty RevokedInfo_zero"
    by (simp_all add: IsEmpty_iff sample_revoked_def sample_time_def RevokedInfo_zero_def
        Time_zero_def)
  have z: "Revoked (normalize_status (sample_entry True RevokedInfo_zero True)) = RevokedInfo_zero"
    "Revoked (normalize_status (sample_entry False RevokedInfo_zero False)) = RevokedInfo_zero"
    by (simp_all add: normalize_status_def MarshalBasicResponse_branch_def sample_entry_def
        singleResponse_zero_def e)
  show ?thesis
    using e z
      normalize_status_cases [of frame_Marshal "sample_basic []"
        "sample_entry True RevokedInfo_zero True"]
      normalize_status_cases [of frame_Marshal "sample_basic []"
        "sample_entry False sample_revoked True"]
      normalize_status_cases [of frame_Marshal "sample_basic []"
        "sample_entry False RevokedInfo_zero False"]
      normalize_status_cases [of frame_Marshal "sample_basic []"
        "sample_entry True RevokedInfo_zero False"]
    by (simp add: sample_entry_def singleResponse.equality)
qed

text \<open>
  C3. Normalization is idempotent: on an entry, and on the Responses list that the loop
  of the encode path rewrites, a second application changes nothing.
\<close>

theorem normalize_status_idempotent:
  "normalize_status (normalize_status sr) = normalize_status sr
   \<and> MarshalBasicResponse_loop (MarshalBasicResponse_loop rs) = MarshalBasicResponse_loop rs
   \<and> MarshalBasicResponse_normalized (MarshalBasicResponse_normalized b) =
       MarshalBasicResponse_normalized b"
  by (simp add: normalize_status_twice MarshalBasicResponse_loop_map normalized_twice)

section \<open>The nonce extension of a response entry\<close>

lemma SetNonce_range_iff:
  "SetNonce_range extList nonce d \<longleftrightarrow> d \<or> (\<exists>e \<in> set extList. Id_ext e = OidOcspNonce)"
  by (induction extList arbitrary: d) (auto simp: Equal_iff)

lemma GetNonce_range_find:
  "GetNonce_range extList =
     (case find (\<lambda>e. Id_ext e = OidOcspNonce) extList of None \<Rightarrow> None | Some e \<Rightarrow> Value e)"
  by (induction extList) (simp_all add: Equal_iff)

lemma Nonce_range_find:
  "Nonce_range extList =
     (case find (\<lambda>e. Id_ext e = OidOcspNonce) extList of None \<Rightarrow> None | Some e \<Rightarrow> Value e)"
  by (induction extList) (simp_all add: Equal_iff)

lemma GetNonce_range_append_absent:
  "\<forall>e \<in> set extList. Id_ext e \<noteq> OidOcspNonce \<Longrightarrow>
     GetNonce_range (extList @ [nonceExt nonce]) = nonce"
  by (induction extList) (simp_all add: Equal_iff nonceExt_def)

lemma GetNonce_range_append_present:
  "\<exists>e \<in> set extList. Id_ext e = OidOcspNonce \<Longrightarrow>
     GetNonce_range (extList @ ys) = GetNonce_range extList"
  by (induction extList) (auto simp: Equal_iff)

lemma SetNonce_extList_eq:
  "SetNonce_extList extList nonce =
     (if \<exists>e \<in> set extList. Id_ext e = OidOcspNonce then extList
      else extList @ [nonceExt nonce])"
  by (cases extList) (auto simp: SetNonce_extList_def SetNonce_range_iff)

lemma Responses_set_Responses:
  "Responses (TBSResponseData (set_Responses b rs)) = rs"
  by (simp add: set_Responses_def)

text \<open>
  What \<open>GetNonce\<close> returns after \<open>SetNonce\<close> at a valid index: the value just set when
  the entry had no nonce extension, and the value of the first nonce extension the entry
  already had otherwise.
\<close>

lemma SetNonce_then_GetNonce:
  assumes "in_range index (Responses (TBSResponseData b))"
  shows "\<exists>b'. SetNonce b index nonce = Inr b' \<and>
     GetNonce b' index =
       Inr (if \<exists>e \<in> set (SingleExtensions (Responses (TBSResponseData b) ! nat index)).
                 Id_ext e = OidOcspNonce
            then GetNonce_range (SingleExtensions (Responses (TBSResponseData b) ! nat index))
            else nonce)"
proof -
  let ?rs = "Responses (TBSResponseData b)"
  let ?exts = "SingleExtensions (?rs ! nat index)"
  have n: "nat index < length ?rs" using assms by (rule in_range_nat)
  let ?b' = "set_Responses b (?rs[nat index := (?rs ! nat index)
      \<lparr>SingleExtensions := SetNonce_extList ?exts nonce\<rparr>])"
  have s: "SetNonce b index nonce = Inr ?b'"
    using assms by (simp add: SetNonce_def Let_def)
  have r: "in_range index (Responses (TBSResponseData ?b'))"
    using assms by (simp add: Responses_set_Responses in_range_def)
  have g: "GetNonce ?b' index = Inr (GetNonce_range (SetNonce_extList ?exts nonce))"
    using r n by (simp add: GetNonce_def Let_def Responses_set_Responses)
  show ?thesis
  proof (cases "\<exists>e \<in> set ?exts. Id_ext e = OidOcspNonce")
    case True
    then show ?thesis using s g by (simp add: SetNonce_extList_eq)
  next
    case False
    then have "GetNonce_range (?exts @ [nonceExt nonce]) = nonce"
      by (simp add: GetNonce_range_append_absent)
    then show ?thesis using s g False by (simp add: SetNonce_extList_eq)
  qed
qed

text \<open>
  C1. On an entry without a nonce extension, \<open>SetNonce\<close> with the value \<open>[1]\<close> appends
  the extension. A second \<open>SetNonce\<close> at the same index with the value \<open>[2]\<close> returns
  the response unchanged: the extension list keeps its length and the nonce extension
  keeps the value \<open>[1]\<close>, which is what \<open>GetNonce\<close> then returns.
\<close>

theorem SetNonce_second_call_keeps_first_value:
  "SetNonce (sample_basic [sample_entry True RevokedInfo_zero False]) 0 (Some [1]) =
     Inr (sample_basic [(sample_entry True RevokedInfo_zero False)
            \<lparr>SingleExtensions := [sample_ext, nonceExt (Some [1])]\<rparr>])
   \<and> SetNonce (sample_basic [(sample_entry True RevokedInfo_zero False)
            \<lparr>SingleExtensions := [sample_ext, nonceExt (Some [1])]\<rparr>]) 0 (Some [2]) =
     Inr (sample_basic [(sample_entry True RevokedInfo_zero False)
            \<lparr>SingleExtensions := [sample_ext, nonceExt (Some [1])]\<rparr>])
   \<and> GetNonce (sample_basic [(sample_entry True RevokedInfo_zero False)
            \<lparr>SingleExtensions := [sample_ext, nonceExt (Some [1])]\<rparr>]) 0 = Inr (Some [1])"
  by (simp add: SetNonce_def GetNonce_def SetNonce_extList_def sample_basic_def
      sample_entry_def sample_ext_def nonceExt_def in_range_def set_Responses_def
      OidOcspNonce_def Let_def)

section \<open>Clearing the status of an entry\<close>

lemma ClearStatus_eq:
  "in_range index (Responses (TBSResponseData b)) \<Longrightarrow>
     ClearStatus b index =
       Inr (set_Responses b ((Responses (TBSResponseData b))[nat index :=
              (Responses (TBSResponseData b) ! nat index)
                \<lparr>Good := False, Unknown := False, Revoked := RevokedInfo_zero\<rparr>]))"
  by (simp add: ClearStatus_def Let_def in_range_nat)

text \<open>
  C7. At a valid index, \<open>ClearStatus\<close> returns the response with the entry at that index
  set to good = false, unknown = false and an empty revoked-info; the entry's CertID,
  ThisUpdate, NextUpdate and SingleExtensions, the other entries, the length of
  Responses and the other fields of the response are as before. Normalizing the cleared
  entry, as the encode path then does, gives unknown = true.
\<close>

theorem ClearStatus_frame:
  assumes "in_range index (Responses (TBSResponseData b))"
  shows "\<exists>b'. ClearStatus b index = Inr b'
     \<and> Good (Responses (TBSResponseData b') ! nat index) = False
     \<and> Unknown (Responses (TBSResponseData b') ! nat index) = False
     \<and> Revoked (Responses (TBSResponseData b') ! nat index) = RevokedInfo_zero
     \<and> IsEmpty (Revoked (Responses (TBSResponseData b') ! nat index))
     \<and> CertID (Responses (TBSResponseData b') ! nat index) =
         CertID (Responses (TBSResponseData b) ! nat index)
     \<and> ThisUpdate (Responses (TBSResponseData b') ! nat index) =
         ThisUpdate (Responses (TBSResponseData b) ! nat index)
     \<and> NextUpdate (Responses (TBSResponseData b') ! nat index) =
         NextUpdate (Responses (TBSResponseData b) ! nat index)
     \<and> SingleExtensions (Responses (TBSResponseData b') ! nat index) =
         SingleExtensions (Responses (TBSResponseData b) ! nat index)
     \<and> length (Responses (TBSResponseData b')) = length (Responses (TBSResponseData b))
     \<and> (\<forall>j. j \<noteq> nat index \<longrightarrow>
           Responses (TBSResponseData b') ! j = Responses (TBSResponseData b) ! j)
     \<and> Version (TBSResponseData b') = Version (TBSResponseData b)
     \<and> ResponderID (TBSResponseData b') = ResponderID (TBSResponseData b)
     \<and> ProducedAt (TBSResponseData b') = ProducedAt (TBSResponseData b)
     \<and> ResponseExtensions (TBSResponseData b') = ResponseExtensions (TBSResponseData b)
     \<and> SignatureAlgorithm b' = SignatureAlgorithm b
     \<and> Signature b' = Signature b
     \<and> Certs b' = Certs b
     \<and> Unknown (normalize_status (Responses (TBSResponseData b') ! nat index)) = True
     \<and> Unknown (Responses (TBSResponseData (fst (MarshalBasicResponse m b'))) ! nat index) = True"
proof -
  let ?rs = "Responses (TBSResponseData b)"
  let ?e = "(?rs ! nat index)\<lparr>Good := False, Unknown := False, Revoked := RevokedInfo_zero\<rparr>"
  let ?b' = "set_Responses b (?rs[nat index := ?e])"
  have n: "nat index < length ?rs" using assms by (rule in_range_nat)
  have c: "ClearStatus b index = Inr ?b'" using assms by (rule ClearStatus_eq)
  have rs': "Responses (TBSResponseData ?b') = ?rs[nat index := ?e]"
    by (simp add: set_Responses_def)
  have at: "Responses (TBSResponseData ?b') ! nat index = ?e"
    using n by (simp add: rs')
  have u: "Unknown (normalize_status ?e) = True"
    by (simp add: normalize_status_third IsEmpty_zero singleResponse_zero_def)
  have enc: "Responses (TBSResponseData (fst (MarshalBasicResponse m ?b'))) ! nat index =
      normalize_status ?e"
    using n by (simp add: MarshalBasicResponse_fst Responses_normalized rs')
  have frame: "Version (TBSResponseData ?b') = Version (TBSResponseData b)"
    "ResponderID (TBSResponseData ?b') = ResponderID (TBSResponseData b)"
    "ProducedAt (TBSResponseData ?b') = ProducedAt (TBSResponseData b)"
    "ResponseExtensions (TBSResponseData ?b') = ResponseExtensions (TBSResponseData b)"
    "SignatureAlgorithm ?b' = SignatureAlgorithm b" "Signature ?b' = Signature b"
    "Certs ?b' = Certs b"
    by (simp_all add: set_Responses_def)
  have others: "\<forall>j. j \<noteq> nat index \<longrightarrow> Responses (TBSResponseData ?b') ! j = ?rs ! j"
    by (simp add: rs')
  have len: "length (Responses (TBSResponseData ?b')) = length ?rs"
    by (simp add: rs')
  show ?thesis
    apply (rule exI [of _ ?b'])
    apply (simp only: c at u enc frame len)
    using others by (simp add: IsEmpty_zero)
qed

theorem ClearStatus_frame_witness:
  "\<exists>b'. ClearStatus (sample_basic [sample_entry True sample_revoked True]) 0 = Inr b'
     \<and> Responses (TBSResponseData b') = [sample_entry False RevokedInfo_zero False]
     \<and> Unknown (normalize_status (Responses (TBSResponseData b') ! 0)) = True"
proof -
  have r: "in_range 0 (Responses (TBSResponseData (sample_basic [sample_entry True sample_revoked True])))"
    by (simp add: in_range_def sample_basic_def)
  obtain b' where b': "ClearStatus (sample_basic [sample_entry True sample_revoked True]) 0 = Inr b'"
    and u: "Unknown (normalize_status (Responses (TBSResponseData b') ! nat 0)) = True"
    using ClearStatus_frame [OF r] by blast
  have "Responses (TBSResponseData b') = [sample_entry False RevokedInfo_zero False]"
    using b' by (auto simp: ClearStatus_def Let_def in_range_def sample_basic_def
        sample_entry_def set_Responses_def)
  then show ?thesis using b' u by simp
qed

section \<open>Index checks of the accessors\<close>

text \<open>
  C9. \<open>SetNonce\<close>, \<open>GetNonce\<close> and \<open>ClearStatus\<close> fail, with the index-out-of-range
  panic, when the index is negative or not below the length of Responses, and return a
  result for every other index, whatever the nonce and the contents of the response.
\<close>

theorem accessors_index_check:
  "((index < 0 \<or> int (length (Responses (TBSResponseData b))) \<le> index) \<longrightarrow>
       SetNonce b index nonce = Inl PanicIndexOutOfRange
       \<and> GetNonce b index = Inl PanicIndexOutOfRange
       \<and> ClearStatus b index = Inl PanicIndexOutOfRange)
   \<and> (0 \<le> index \<and> index < int (length (Responses (TBSResponseData b))) \<longrightarrow>
       (\<exists>b'. SetNonce b index nonce = Inr b')
       \<and> (\<exists>v. GetNonce b index = Inr v)
       \<and> (\<exists>b'. ClearStatus b index = Inr b'))"
  by (auto simp: SetNonce_def GetNonce_def ClearStatus_def in_range_def Let_def)

theorem accessors_index_check_witness:
  "SetNonce (sample_basic [sample_entry True RevokedInfo_zero False]) 1 (Some []) =
     Inl PanicIndexOutOfRange
   \<and> GetNonce (sample_basic [sample_entry True RevokedInfo_zero False]) (- 1) =
     Inl PanicIndexOutOfRange
   \<and> ClearStatus (sample_basic []) 0 = Inl PanicIndexOutOfRange
   \<and> (\<exists>b'. SetNonce (sample_basic [sample_entry True RevokedInfo_zero False]) 0 None = Inr b')
   \<and> (\<exists>v. GetNonce (sample_basic [sample_entry True RevokedInfo_zero False]) 0 = Inr v)
   \<and> (\<exists>b'. ClearStatus (sample_basic [sample_entry True RevokedInfo_zero False]) 0 = Inr b')"
  using
    accessors_index_check [of 1 "sample_basic [sample_entry True RevokedInfo_zero False]" "Some []"]
    accessors_index_check [of "- 1" "sample_basic [sample_entry True RevokedInfo_zero False]" None]
    accessors_index_check [of 0 "sample_basic []" None]
    accessors_index_check [of 0 "sample_basic [sample_entry True RevokedInfo_zero False]" None]
  by (simp add: sample_basic_def)

section \<open>The nonce of a request\<close>

text \<open>
  C8. \<open>Nonce\<close> leaves the request as it is. When the request's top-level extension list
  has an extension with the object identifier 1.3.6.1.5.5.7.48.1.2, the result is the
  value of such an extension, the first in the list; when it has none, the result is nil.
\<close>

theorem Nonce_result:
  assumes "exts = ExtensionList (TBSRequest r)"
  shows "fst (Nonce r) = r
     \<and> ((\<exists>e \<in> set exts. Id_ext e = [1, 3, 6, 1, 5, 5, 7, 48, 1, 2]) \<longrightarrow>
          (\<exists>e \<in> set exts. Id_ext e = [1, 3, 6, 1, 5, 5, 7, 48, 1, 2] \<and> snd (Nonce r) = Value e))
     \<and> ((\<forall>e \<in> set exts. Id_ext e \<noteq> [1, 3, 6, 1, 5, 5, 7, 48, 1, 2]) \<longrightarrow> snd (Nonce r) = None)
     \<and> snd (Nonce r) =
         (case find (\<lambda>e. Id_ext e = [1, 3, 6, 1, 5, 5, 7, 48, 1, 2]) exts of
            None \<Rightarrow> None | Some e \<Rightarrow> Value e)"
proof -
  let ?P = "\<lambda>e. Id_ext e = [1, 3, 6, 1, 5, 5, 7, 48, 1, 2]"
  have f: "snd (Nonce r) = (case find ?P exts of None \<Rightarrow> None | Some e \<Rightarrow> Value e)"
    using assms by (simp add: Nonce_def Nonce_range_find OidOcspNonce_def)
  have present: "\<exists>e \<in> set exts. ?P e \<and> snd (Nonce r) = Value e" if "\<exists>e \<in> set exts. ?P e"
  proof -
    from that obtain e where e: "find ?P exts = Some e"
      by (cases "find ?P exts") (auto simp: find_None_iff)
    then have "e \<in> set exts" "?P e"
      by (auto simp: find_Some_iff)
    then show ?thesis using f e by auto
  qed
  have absent: "snd (Nonce r) = None" if "\<forall>e \<in> set exts. \<not> ?P e"
  proof -
    from that have "find ?P exts = None" by (simp add: find_None_iff)
    then show ?thesis using f by simp
  qed
  show ?thesis using f present absent by (simp add: Nonce_def)
qed

theorem Nonce_result_witness:
  "Nonce (sample_request [sample_ext, nonceExt (Some [7, 7]), nonceExt (Some [8])]) =
     (sample_request [sample_ext, nonceExt (Some [7, 7]), nonceExt (Some [8])], Some [7, 7])
   \<and> Nonce (sample_request [sample_ext]) = (sample_request [sample_ext], None)"
proof -
  have a: "snd (Nonce (sample_request [sample_ext, nonceExt (Some [7, 7]), nonceExt (Some [8])])) =
      Some [7, 7]"
    using Nonce_result [of "[sample_ext, nonceExt (Some [7, 7]), nonceExt (Some [8])]"
        "sample_request [sample_ext, nonceExt (Some [7, 7]), nonceExt (Some [8])]"]
    by (simp add: sample_request_def sample_ext_def nonceExt_def OidOcspNonce_def)
  have b: "snd (Nonce (sample_request [sample_ext])) = None"
    using Nonce_result [of "[sample_ext]" "sample_request [sample_ext]"]
    by (simp add: sample_request_def sample_ext_def)
  show ?thesis using a b by (simp add: Nonce_def)
qed

section \<open>An entry that is both good and revoked\<close>

text \<open>
  C10. An entry that is good, has a non-empty revoked-info and is not unknown takes none
  of the three branches: normalization returns it unchanged, and a response holding it
  at an index goes to \<open>asn1.Marshal\<close> with that entry, good and revoked at once, at that
  index.
\<close>

theorem good_and_revoked_unchanged:
  assumes "Good sr" and "\<not> IsEmpty (Revoked sr)" and "\<not> Unknown sr"
  shows "MarshalBasicResponse_branch sr = None \<and> normalize_status sr = sr
     \<and> (\<forall>i < length (Responses (TBSResponseData b)).
          Responses (TBSResponseData b) ! i = sr \<longrightarrow>
          Responses (TBSResponseData (fst (MarshalBasicResponse m b))) ! i = sr
          \<and> snd (MarshalBasicResponse m b) =
              (case m (fst (MarshalBasicResponse m b)) of
                 Inl err \<Rightarrow> Inl (Asn1 err) | Inr w \<Rightarrow> Inr w))"
proof -
  have br: "MarshalBasicResponse_branch sr = None"
    using assms by (simp add: MarshalBasicResponse_branch_def)
  then have n: "normalize_status sr = sr"
    by (simp add: normalize_status_def)
  show ?thesis
    using br n
    by (simp add: MarshalBasicResponse_fst MarshalBasicResponse_snd Responses_normalized)
qed

theorem good_and_revoked_unchanged_witness:
  "normalize_status (sample_entry True sample_revoked False) =
     sample_entry True sample_revoked False
   \<and> fst (MarshalBasicResponse frame_Marshal
        (sample_basic [sample_entry True sample_revoked False])) =
     sample_basic [sample_entry True sample_revoked False]"
proof -
  let ?sr = "sample_entry True sample_revoked False"
  have g: "Good ?sr" "\<not> Unknown ?sr" by (simp_all add: sample_entry_def)
  have e: "\<not> IsEmpty (Revoked ?sr)"
    by (simp add: IsEmpty_iff sample_entry_def sample_revoked_def sample_time_def)
  have n: "normalize_status ?sr = ?sr"
    using good_and_revoked_unchanged [OF g(1) e g(2)] by simp
  then show ?thesis
    by (simp add: MarshalBasicResponse_fst MarshalBasicResponse_normalized_def
        MarshalBasicResponse_loop_map sample_basic_def)
qed

section \<open>The response envelope\<close>

lemma MarshalResponseFromBasic_fst:
  "fst (MarshalResponseFromBasic mb mr b) = MarshalBasicResponse_normalized b"
proof -
  have s: "set_Responses b (Responses (TBSResponseData b)) = b"
    by (simp add: set_Responses_def)
  show ?thesis
    by (simp add: MarshalResponseFromBasic_def MarshalResponseFromBasic_range_id s
        MarshalBasicResponse_def Let_def split: sum.split)
qed

lemma MarshalResponseFromBasic_snd:
  "snd (MarshalResponseFromBasic mb mr b) =
     (case mb (MarshalBasicResponse_normalized b) of
        Inl err \<Rightarrow> Inl (Asn1 err)
      | Inr inner \<Rightarrow>
          (case mr \<lparr>ResponseStatus = 0, ResponseBytes =
                 \<lparr>ResponseType = OidOcspBasicResponse, Response = Some inner\<rparr>\<rparr> of
             Inl err \<Rightarrow> Inl (Asn1 err)
           | Inr out \<Rightarrow> Inr out))"
proof -
  have s: "set_Responses b (Responses (TBSResponseData b)) = b"
    by (simp add: set_Responses_def)
  show ?thesis
    by (simp add: MarshalResponseFromBasic_def MarshalResponseFromBasic_range_id s
        MarshalBasicResponse_def Let_def split: sum.split)
qed

text \<open>
  C5. When \<open>MarshalResponseFromBasic\<close> returns bytes for a BasicResponse, the response it
  leaves behind has every entry of Responses normalized and nothing else changed, and
  the bytes are what \<open>asn1.Marshal\<close> gives for the OcspResponse with ResponseStatus 0,
  ResponseType 1.3.6.1.5.5.7.48.1.1 and, as Response, what \<open>asn1.Marshal\<close> gives for the
  normalized BasicResponse.
\<close>

theorem MarshalResponseFromBasic_envelope:
  assumes "MarshalResponseFromBasic marshalBasic marshalResponse b = (b', Inr out)"
  shows "b' = MarshalBasicResponse_normalized b
     \<and> b' = set_Responses b (map normalize_status (Responses (TBSResponseData b)))
     \<and> (\<exists>inner. marshalBasic b' = Inr inner
          \<and> marshalResponse \<lparr>ResponseStatus = 0, ResponseBytes =
               \<lparr>ResponseType = [1, 3, 6, 1, 5, 5, 7, 48, 1, 1], Response = Some inner\<rparr>\<rparr> =
             Inr out)"
proof -
  have b': "b' = MarshalBasicResponse_normalized b"
    using assms MarshalResponseFromBasic_fst [of marshalBasic marshalResponse b] by simp
  have m: "b' = set_Responses b (map normalize_status (Responses (TBSResponseData b)))"
    by (simp add: b' MarshalBasicResponse_normalized_def set_Responses_def
        MarshalBasicResponse_loop_map)
  have "snd (MarshalResponseFromBasic marshalBasic marshalResponse b) = Inr out"
    using assms by simp
  then have "\<exists>inner. marshalBasic b' = Inr inner
      \<and> marshalResponse \<lparr>ResponseStatus = 0, ResponseBytes =
           \<lparr>ResponseType = [1, 3, 6, 1, 5, 5, 7, 48, 1, 1], Response = Some inner\<rparr>\<rparr> = Inr out"
    by (auto simp: MarshalResponseFromBasic_snd b' OidOcspBasicResponse_def split: sum.splits)
  then show ?thesis using b' m by blast
qed

theorem MarshalResponseFromBasic_envelope_witness:
  "MarshalResponseFromBasic frame_Marshal frame_Marshal
      (sample_basic [sample_entry False RevokedInfo_zero False]) =
     (sample_basic [sample_entry False RevokedInfo_zero True], Inr [0x30, 0x00])
   \<and> sample_basic [sample_entry False RevokedInfo_zero True] =
       MarshalBasicResponse_normalized (sample_basic [sample_entry False RevokedInfo_zero False])"
proof -
  have n: "normalize_status (sample_entry False RevokedInfo_zero False) =
      sample_entry False RevokedInfo_zero True"
    by (simp add: normalize_status_third IsEmpty_zero sample_entry_def singleResponse_zero_def)
  have e: "MarshalResponseFromBasic frame_Marshal frame_Marshal
      (sample_basic [sample_entry False RevokedInfo_zero False]) =
     (sample_basic [sample_entry False RevokedInfo_zero True], Inr [0x30, 0x00])"
    by (simp add: prod_eq_iff MarshalResponseFromBasic_fst MarshalResponseFromBasic_snd
        MarshalBasicResponse_normalized_def MarshalBasicResponse_loop_map n frame_Marshal_def
        sample_basic_def)
  show ?thesis
    using e MarshalResponseFromBasic_envelope [OF e] by simp
qed

section \<open>Trailing data\<close>

lemma frame_Unmarshal_append:
  "frame_Unmarshal v b = Inr (x, rest) \<Longrightarrow> frame_Unmarshal v (b @ s) = Inr (x, rest @ s)"
proof (cases b)
  case Nil
  then show "frame_Unmarshal v b = Inr (x, rest) \<Longrightarrow> ?thesis" by simp
next
  case (Cons t b')
  then show "frame_Unmarshal v b = Inr (x, rest) \<Longrightarrow> ?thesis"
    by (cases b') (auto split: if_splits)
qed

lemma UnmarshalRequest_rest:
  "u b = Inr (v, rest) \<Longrightarrow> rest \<noteq> [] \<Longrightarrow>
     UnmarshalRequest u b = Inl (ErrorsNew ''trailing data in OCSP request'')"
  by (simp add: UnmarshalRequest_def)

lemma UnmarshalResponse_rest:
  "u b = Inr (v, rest) \<Longrightarrow> rest \<noteq> [] \<Longrightarrow>
     UnmarshalResponse u b = Inl (ErrorsNew ''trailing data in OCSP response'')"
  by (simp add: UnmarshalResponse_def)

lemma UnmarshalBasicResponse_rest:
  "u b = Inr (v, rest) \<Longrightarrow> rest \<noteq> [] \<Longrightarrow>
     UnmarshalBasicResponse u b = Inl (ErrorsNew ''trailing data in OCSP basic response'')"
  by (simp add: UnmarshalBasicResponse_def)

lemma UnmarshalRequest_Inr:
  "UnmarshalRequest u b = Inr v \<longleftrightarrow> u b = Inr (v, [])"
  by (auto simp: UnmarshalRequest_def split: sum.splits prod.splits if_splits)

lemma UnmarshalResponse_Inr:
  "UnmarshalResponse u b = Inr v \<longleftrightarrow> u b = Inr (v, [])"
  by (auto simp: UnmarshalResponse_def split: sum.splits prod.splits if_splits)

lemma UnmarshalBasicResponse_Inr:
  "UnmarshalBasicResponse u b = Inr v \<longleftrightarrow> u b = Inr (v, [])"
  by (auto simp: UnmarshalBasicResponse_def split: sum.splits prod.splits if_splits)

text \<open>
  C6. Whenever \<open>asn1.Unmarshal\<close> leaves bytes unconsumed, each of the three top-level
  decoders returns its trailing-data error and no value. Hence, for an \<open>asn1.Unmarshal\<close>
  that reads one encoded value from the front of its input (bytes appended to the input
  are appended to the rest), a non-empty suffix after an input that decodes makes the
  decoder fail with the trailing-data error.
\<close>

theorem trailing_data_rejected:
  "(uReq b1 = Inr (v1, rest) \<and> rest \<noteq> [] \<longrightarrow>
      UnmarshalRequest uReq b1 = Inl (ErrorsNew ''trailing data in OCSP request''))
   \<and> (uResp b2 = Inr (v2, rest) \<and> rest \<noteq> [] \<longrightarrow>
      UnmarshalResponse uResp b2 = Inl (ErrorsNew ''trailing data in OCSP response''))
   \<and> (uBasic b3 = Inr (v3, rest) \<and> rest \<noteq> [] \<longrightarrow>
      UnmarshalBasicResponse uBasic b3 = Inl (ErrorsNew ''trailing data in OCSP basic response''))
   \<and> ((\<forall>x v r t. uReq x = Inr (v, r) \<longrightarrow> uReq (x @ t) = Inr (v, r @ t))
        \<and> UnmarshalRequest uReq b = Inr req \<and> s \<noteq> [] \<longrightarrow>
      UnmarshalRequest uReq (b @ s) = Inl (ErrorsNew ''trailing data in OCSP request''))
   \<and> ((\<forall>x v r t. uResp x = Inr (v, r) \<longrightarrow> uResp (x @ t) = Inr (v, r @ t))
        \<and> UnmarshalResponse uResp b = Inr resp \<and> s \<noteq> [] \<longrightarrow>
      UnmarshalResponse uResp (b @ s) = Inl (ErrorsNew ''trailing data in OCSP response''))
   \<and> ((\<forall>x v r t. uBasic x = Inr (v, r) \<longrightarrow> uBasic (x @ t) = Inr (v, r @ t))
        \<and> UnmarshalBasicResponse uBasic b = Inr basic \<and> s \<noteq> [] \<longrightarrow>
      UnmarshalBasicResponse uBasic (b @ s) =
        Inl (ErrorsNew ''trailing data in OCSP basic response''))"
proof (intro conjI impI)
  assume "uReq b1 = Inr (v1, rest) \<and> rest \<noteq> []"
  then show "UnmarshalRequest uReq b1 = Inl (ErrorsNew ''trailing data in OCSP request'')"
    using UnmarshalRequest_rest by blast
next
  assume "uResp b2 = Inr (v2, rest) \<and> rest \<noteq> []"
  then show "UnmarshalResponse uResp b2 = Inl (ErrorsNew ''trailing data in OCSP response'')"
    using UnmarshalResponse_rest by blast
next
  assume "uBasic b3 = Inr (v3, rest) \<and> rest \<noteq> []"
  then show "UnmarshalBasicResponse uBasic b3 =
      Inl (ErrorsNew ''trailing data in OCSP basic response'')"
    using UnmarshalBasicResponse_rest by blast
next
  assume a: "(\<forall>x v r t. uReq x = Inr (v, r) \<longrightarrow> uReq (x @ t) = Inr (v, r @ t))
      \<and> UnmarshalRequest uReq b = Inr req \<and> s \<noteq> []"
  then have "uReq b = Inr (req, [])" by (simp add: UnmarshalRequest_Inr)
  with a have "uReq (b @ s) = Inr (req, [] @ s)" by blast
  with a show "UnmarshalRequest uReq (b @ s) = Inl (ErrorsNew ''trailing data in OCSP request'')"
    by (simp add: UnmarshalRequest_rest)
next
  assume a: "(\<forall>x v r t. uResp x = Inr (v, r) \<longrightarrow> uResp (x @ t) = Inr (v, r @ t))
      \<and> UnmarshalResponse uResp b = Inr resp \<and> s \<noteq> []"
  then have "uResp b = Inr (resp, [])" by (simp add: UnmarshalResponse_Inr)
  with a have "uResp (b @ s) = Inr (resp, [] @ s)" by blast
  with a show "UnmarshalResponse uResp (b @ s) =
      Inl (ErrorsNew ''trailing data in OCSP response'')"
    by (simp add: UnmarshalResponse_rest)
next
  assume a: "(\<forall>x v r t. uBasic x = Inr (v, r) \<longrightarrow> uBasic (x @ t) = Inr (v, r @ t))
      \<and> UnmarshalBasicResponse uBasic b = Inr basic \<and> s \<noteq> []"
  then have "uBasic b = Inr (basic, [])" by (simp add: UnmarshalBasicResponse_Inr)
  with a have "uBasic (b @ s) = Inr (basic, [] @ s)" by blast
  with a show "UnmarshalBasicResponse uBasic (b @ s) =
      Inl (ErrorsNew ''trailing data in OCSP basic response'')"
    by (simp add: UnmarshalBasicResponse_rest)
qed

theorem trailing_data_rejected_witness:
  "UnmarshalRequest (frame_Unmarshal (sample_request [])) [0x30, 0x00] = Inr (sample_request [])
   \<and> UnmarshalRequest (frame_Unmarshal (sample_request [])) ([0x30, 0x00] @ [0xFF]) =
       Inl (ErrorsNew ''trailing data in OCSP request'')
   \<and> UnmarshalResponse (frame_Unmarshal sample_response) [0x30, 0x00] = Inr sample_response
   \<and> UnmarshalResponse (frame_Unmarshal sample_response) ([0x30, 0x00] @ [0xFF]) =
       Inl (ErrorsNew ''trailing data in OCSP response'')
   \<and> UnmarshalBasicResponse (frame_Unmarshal (sample_basic [])) [0x30, 0x00] =
       Inr (sample_basic [])
   \<and> UnmarshalBasicResponse (frame_Unmarshal (sample_basic [])) ([0x30, 0x00] @ [0xFF]) =
       Inl (ErrorsNew ''trailing data in OCSP basic response'')"
proof -
  have p1: "\<forall>x v r t. frame_Unmarshal (sample_request []) x = Inr (v, r) \<longrightarrow>
      frame_Unmarshal (sample_request []) (x @ t) = Inr (v, r @ t)"
    by (intro allI impI) (rule frame_Unmarshal_append)
  have p2: "\<forall>x v r t. frame_Unmarshal sample_response x = Inr (v, r) \<longrightarrow>
      frame_Unmarshal sample_response (x @ t) = Inr (v, r @ t)"
    by (intro allI impI) (rule frame_Unmarshal_append)
  have p3: "\<forall>x v r t. frame_Unmarshal (sample_basic []) x = Inr (v, r) \<longrightarrow>
      frame_Unmarshal (sample_basic []) (x @ t) = Inr (v, r @ t)"
    by (intro allI impI) (rule frame_Unmarshal_append)
  have d1: "UnmarshalRequest (frame_Unmarshal (sample_request [])) [0x30, 0x00] =
      Inr (sample_request [])"
    by (simp add: UnmarshalRequest_def)
  have d2: "UnmarshalResponse (frame_Unmarshal sample_response) [0x30, 0x00] = Inr sample_response"
    by (simp add: UnmarshalResponse_def)
  have d3: "UnmarshalBasicResponse (frame_Unmarshal (sample_basic [])) [0x30, 0x00] =
      Inr (sample_basic [])"
    by (simp add: UnmarshalBasicResponse_def)
  have n: "[0xFF :: byte] \<noteq> []" by simp
  show ?thesis
    using p1 p2 p3 d1 d2 d3 n
      trailing_data_rejected [of "frame_Unmarshal (sample_request [])" "[0x30, 0x00, 0xFF]"
        "sample_request []" "[0xFF]"
        "frame_Unmarshal sample_response" "[0x30, 0x00, 0xFF]" sample_response
        "frame_Unmarshal (sample_basic [])" "[0x30, 0x00, 0xFF]" "sample_basic []"
        "[0x30, 0x00]" "sample_request []" "[0xFF]" sample_response "sample_basic []"]
    by simp
qed

section \<open>Decoding what was encoded\<close>











end
